theory Spec2Isabelle
  imports Main "HOL-Library.AList" "HOL-Library.Sublist"
begin

section \<open>JavaScript values\<close>

text \<open>
  The resolvers work on plain JavaScript data: error records, the nested error tree and
  the field registry are objects whose properties are strings, objects and arrays.
  A value is modelled by the list of its own enumerable data properties, in insertion
  order:
  \<^item> an array is the list of its own properties (the index keys \<open>''0''\<close>, \<open>''1''\<close>, ...
    and any other key assigned to it), tagged as an array;
  \<^item> looking a key up takes its first entry in the list and defining a key replaces that
    entry, so a list behaves as the object that has each of its keys once;
  \<^item> objects are values: two keys of a mapping hold two objects, and nothing is shared
    between them.

  What a value inherits from its prototype, and the \<open>length\<close> of an array, are not
  in the list. The functions of this section look up and define own properties. The
  reads and the assignments of the program are the functions of the section on property
  access, which take the inherited properties into account.
\<close>

datatype jsval =
    JUndefined
  | JNull
  | JBool bool
  | JNum int
  | JStr string
  | JArr "(string \<times> jsval) list"
  | JObj "(string \<times> jsval) list"

fun truthy :: "jsval \<Rightarrow> bool" where
  "truthy JUndefined = False"
| "truthy JNull = False"
| "truthy (JBool b) = b"
| "truthy (JNum n) = (n \<noteq> 0)"
| "truthy (JStr s) = (s \<noteq> [])"
| "truthy (JArr ps) = True"
| "truthy (JObj ps) = True"

text \<open>\<open>a && b\<close> and \<open>a || b\<close> return one of their operands.\<close>

definition js_and :: "jsval \<Rightarrow> jsval \<Rightarrow> jsval" where
  "js_and a b = (if truthy a then b else a)"

definition js_or :: "jsval \<Rightarrow> jsval \<Rightarrow> jsval" where
  "js_or a b = (if truthy a then a else b)"

fun own_props :: "jsval \<Rightarrow> (string \<times> jsval) list" where
  "own_props (JArr ps) = ps"
| "own_props (JObj ps) = ps"
| "own_props v = []"

text \<open>The own property of a value under a key, \<open>undefined\<close> when it has none.\<close>

definition get_prop :: "jsval \<Rightarrow> string \<Rightarrow> jsval" where
  "get_prop v k = (case map_of (own_props v) k of None \<Rightarrow> JUndefined | Some x \<Rightarrow> x)"

text \<open>
  Defining an own property of an object or an array: an existing key keeps its place, a
  new key goes last.
\<close>

fun put_prop :: "jsval \<Rightarrow> string \<Rightarrow> jsval \<Rightarrow> jsval" where
  "put_prop (JArr ps) k v = JArr (AList.update k v ps)"
| "put_prop (JObj ps) k v = JObj (AList.update k v ps)"
| "put_prop w k v = w"

definition isDigit :: "char \<Rightarrow> bool" where
  "isDigit c = (c \<in> set ''0123456789'')"

text \<open>
  \<open>for (const key in o)\<close> and \<open>Object.keys(o)\<close> enumerate the array-index keys
  first, in ascending numeric order, and then the other keys in insertion order. An
  array index is the canonical decimal string of a number below \<open>2^32 - 1\<close>.
\<close>

definition nat_of_digits :: "string \<Rightarrow> nat" where
  "nat_of_digits s = foldl (\<lambda>n c. 10 * n + (of_char c - 48)) 0 s"

definition isArrayIndex :: "string \<Rightarrow> bool" where
  "isArrayIndex s =
     (s = ''0'' \<or>
      (s \<noteq> [] \<and> list_all isDigit s \<and> hd s \<noteq> CHR ''0'' \<and> nat_of_digits s < 4294967295))"

definition own_keys :: "(string \<times> jsval) list \<Rightarrow> string list" where
  "own_keys ps =
     (let ks = map fst ps
      in sort_key nat_of_digits (filter isArrayIndex ks) @ filter (\<lambda>k. \<not> isArrayIndex k) ks)"

text \<open>
  Copying the own properties of a source into a target, in the order of enumeration:
  what \<open>Object.assign(target, source)\<close> and the spread \<open>{...source}\<close> do on objects
  whose keys are not special (see \<open>assign\<close> below).
\<close>

definition object_assign :: "jsval \<Rightarrow> jsval \<Rightarrow> jsval" where
  "object_assign target source =
     foldl (\<lambda>t k. put_prop t k (get_prop source k)) target (own_keys (own_props source))"

fun isUndefined :: "jsval \<Rightarrow> bool" where
  "isUndefined JUndefined = True"
| "isUndefined v = False"

fun isNullOrUndefined :: "jsval \<Rightarrow> bool" where
  "isNullOrUndefined JUndefined = True"
| "isNullOrUndefined JNull = True"
| "isNullOrUndefined v = False"

text \<open>react-hook-form's \<open>isObject\<close> is false on arrays; \<open>Array.isArray\<close> is the other test.\<close>

fun isObject :: "jsval \<Rightarrow> bool" where
  "isObject (JObj ps) = True"
| "isObject v = False"

fun isArray :: "jsval \<Rightarrow> bool" where
  "isArray (JArr ps) = True"
| "isArray v = False"

section \<open>Errors\<close>

text \<open>
  A Joi \<open>ValidationError\<close> carries \<open>details\<close>, one item for each failure, with a
  message, the path of the failing value (keys and array indices) and the type of the
  rule that failed.
\<close>

datatype path_item = Key string | Index nat

record ValidationErrorItem =
  item_message :: string
  item_path :: "path_item list"
  item_type :: string

text \<open>
  What ends a run otherwise than by a return. The validation throws, or rejects with, a
  \<open>ValidationError\<close>, or an error object of another kind, which has no \<open>details\<close>.
  JavaScript raises a \<open>TypeError\<close> on reading a property of \<open>undefined\<close>, a
  \<open>SyntaxError\<close> on building a regular expression from a pattern that is not well
  formed, and a \<open>RangeError\<close> on assigning to the \<open>length\<close> of an array what is
  not a length.

  \<open>Unmodelled\<close> is not an error of JavaScript. It is the outcome of the model on a
  run that leaves the part of the language that the model covers: a read or an
  assignment that meets an inherited property, or a pattern with an operator, in the
  cases described below. Nothing is stated about the program on such a run.
\<close>

datatype thrown =
    ValidationError "ValidationErrorItem list"
  | OtherError string
  | TypeError
  | SyntaxError
  | RangeError
  | Unmodelled

text \<open>Sequencing: what ends the first computation ends the whole.\<close>

fun and_then :: "thrown + 'a \<Rightarrow> ('a \<Rightarrow> thrown + 'b) \<Rightarrow> thrown + 'b" where
  "and_then (Inl t) f = Inl t"
| "and_then (Inr x) f = f x"

section \<open>Property access\<close>

text \<open>
  Every object inherits the properties of \<open>Object.prototype\<close>: eleven functions, and
  the accessor \<open>__proto__\<close>. All of them are truthy when read, and the functions can be
  shadowed by an assignment, which defines an own property; an assignment to
  \<open>__proto__\<close> changes the prototype instead.
\<close>

definition object_prototype_names :: "string list" where
  "object_prototype_names =
     [''__defineGetter__'', ''__defineSetter__'', ''__lookupGetter__'', ''__lookupSetter__'',
      ''__proto__'', ''constructor'', ''hasOwnProperty'', ''isPrototypeOf'',
      ''propertyIsEnumerable'', ''toLocaleString'', ''toString'', ''valueOf'']"

definition inherited :: "string \<Rightarrow> bool" where
  "inherited k = (k \<in> set object_prototype_names)"

text \<open>
  \<open>o[k]\<close>. On an object the value is the own property, \<open>undefined\<close> for a key that
  is neither own nor inherited, and a function outside this model for an inherited one.
  On an array the model has the own properties and the indices (a missing index reads
  \<open>undefined\<close>), and neither the \<open>length\<close> nor the methods. Reading a property of
  \<open>undefined\<close> or \<open>null\<close> raises a \<open>TypeError\<close>; the properties of the other
  primitives are not modelled.
\<close>

definition read_prop :: "jsval \<Rightarrow> string \<Rightarrow> thrown + jsval" where
  "read_prop v k =
     (if isNullOrUndefined v then Inl TypeError
      else if isObject v
      then (case map_of (own_props v) k of
              Some x \<Rightarrow> Inr x
            | None \<Rightarrow> if inherited k then Inl Unmodelled else Inr JUndefined)
      else if isArray v \<and> k \<noteq> ''length''
      then (case map_of (own_props v) k of
              Some x \<Rightarrow> Inr x
            | None \<Rightarrow> if isArrayIndex k then Inr JUndefined else Inl Unmodelled)
      else Inl Unmodelled)"

text \<open>
  \<open>!!o[k]\<close> on an object: an inherited property is truthy, whatever it is.
\<close>

definition truthy_prop :: "(string \<times> jsval) list \<Rightarrow> string \<Rightarrow> bool" where
  "truthy_prop ps k = (case map_of ps k of Some x \<Rightarrow> truthy x | None \<Rightarrow> inherited k)"

text \<open>
  \<open>o[k] = v\<close>, which returns the object as the assignment leaves it. On an object and
  on an array the assignment defines the own property, with two exceptions. The key
  \<open>__proto__\<close> is outside the model. Assigning to the \<open>length\<close> of an array converts
  the value to a number: a plain object converts to \<open>NaN\<close> (through
  \<open>Object.prototype.toString\<close>, unless it has its own \<open>toString\<close> or
  \<open>valueOf\<close>), which is not a length, so that the assignment raises a
  \<open>RangeError\<close>; the other values are outside the model.
\<close>

definition write_prop :: "jsval \<Rightarrow> string \<Rightarrow> jsval \<Rightarrow> thrown + jsval" where
  "write_prop object k v =
     (if k = ''__proto__'' \<or> \<not> (isObject object \<or> isArray object) then Inl Unmodelled
      else if isArray object \<and> k = ''length''
      then (if isObject v \<and> map_of (own_props v) ''toString'' = None \<and>
               map_of (own_props v) ''valueOf'' = None
            then Inl RangeError else Inl Unmodelled)
      else Inr (put_prop object k v))"

text \<open>
  \<open>Object.assign(target, source)\<close> reads each own enumerable property of the source
  and assigns it to the target. On a source that is \<open>undefined\<close>, \<open>null\<close>, a number or
  a boolean nothing is assigned. Outside the model: a target that is a primitive (the
  result is its wrapper object), a source that is a string with characters (they are
  copied), and a source with the own key \<open>__proto__\<close> or \<open>length\<close>.
\<close>

definition assign :: "jsval \<Rightarrow> jsval \<Rightarrow> thrown + jsval" where
  "assign target source =
     (if \<not> (isObject target \<or> isArray target) \<or>
         (case source of JStr s \<Rightarrow> s \<noteq> [] | _ \<Rightarrow> False) \<or>
         list_ex (\<lambda>k. k = ''__proto__'' \<or> k = ''length'') (map fst (own_props source))
      then Inl Unmodelled
      else Inr (object_assign target source))"

section \<open>Paths: react-hook-form's \<open>get\<close> and \<open>set\<close>\<close>

text \<open>
  \<open>get\<close> and \<open>set\<close> are imported from react-hook-form, which is not part of this
  repository. They are modelled after that library:
  \<^verbatim>\<open>isKey = (value) => /^\w*$/.test(value)\<close>,
  \<^verbatim>\<open>stringToPath = (input) => compact(input.replace(/["|']|\]/g, '').split(/\.|\[/))\<close>,
  \<open>get\<close> reduces the object over the keys of the path and falls back to the whole
  path as one key, \<open>set\<close> walks the keys, creates the missing containers (an array
  when the next key is numeric) and refuses the keys \<open>__proto__\<close>, \<open>constructor\<close>
  and \<open>prototype\<close>.
\<close>

definition isWordChar :: "char \<Rightarrow> bool" where
  "isWordChar c =
     (c \<in> set ''abcdefghijklmnopqrstuvwxyzABCDEFGHIJKLMNOPQRSTUVWXYZ0123456789_'')"

definition isKey :: "string \<Rightarrow> bool" where
  "isKey s = list_all isWordChar s"

text \<open>\<open>s.split(sep)\<close> for a one-character separator class: the pieces between separators.\<close>

fun split_on :: "(char \<Rightarrow> bool) \<Rightarrow> string \<Rightarrow> string list" where
  "split_on sep [] = [[]]"
| "split_on sep (c # cs) =
     (if sep c then [] # split_on sep cs
      else (case split_on sep cs of
              [] \<Rightarrow> [[c]]
            | piece # pieces \<Rightarrow> (c # piece) # pieces))"

definition compact :: "string list \<Rightarrow> string list" where
  "compact xs = filter (\<lambda>s. s \<noteq> []) xs"

definition stringToPath :: "string \<Rightarrow> string list" where
  "stringToPath input =
     compact (split_on (\<lambda>c. c = CHR ''.'' \<or> c = CHR ''['')
       (filter (\<lambda>c. c \<notin> set [CHR 0x22, CHR ''|'', CHR 0x27, CHR '']'']) input))"

text \<open>The keys that \<open>get\<close> and \<open>set\<close> walk: \<open>isKey(path) ? [path] : stringToPath(path)\<close>.\<close>

definition path_keys :: "string \<Rightarrow> string list" where
  "path_keys path = (if isKey path then [path] else stringToPath path)"

text \<open>
  The reduction of \<open>get\<close>:
  \<^verbatim>\<open>keys.reduce((result, key) => isNullOrUndefined(result) ? result : result[key], object)\<close>.
\<close>

fun get_loop :: "jsval \<Rightarrow> string list \<Rightarrow> thrown + jsval" where
  "get_loop result [] = Inr result"
| "get_loop result (key # ks) =
     (if isNullOrUndefined result then get_loop result ks
      else case read_prop result key of
             Inl t \<Rightarrow> Inl t
           | Inr r \<Rightarrow> get_loop r ks)"

text \<open>
  \<open>get(object, path)\<close> with no default value. The source compares \<open>result === object\<close>
  by identity; in data without cycles the reduction returns the object itself exactly
  when there is no key to walk.
\<close>

definition get_rhf :: "jsval \<Rightarrow> string \<Rightarrow> thrown + jsval" where
  "get_rhf object path =
     (if path = [] \<or> \<not> isObject object then Inr JUndefined
      else case get_loop object (path_keys path) of
             Inl t \<Rightarrow> Inl t
           | Inr result \<Rightarrow>
               if isUndefined result \<or> path_keys path = [] then read_prop object path
               else Inr result)"

text \<open>
  \<open>!isNaN(+s)\<close>: the string is a numeric literal of JavaScript after trimming white
  space (the empty string counts as 0): a signed decimal with optional fraction and
  exponent, \<open>Infinity\<close>, or an unsigned binary, octal or hexadecimal integer.
\<close>

definition isWhiteSpace :: "char \<Rightarrow> bool" where
  "isWhiteSpace c =
     (c \<in> set [CHR 0x09, CHR 0x0A, CHR 0x0B, CHR 0x0C, CHR 0x0D, CHR '' '', CHR 0xA0])"

definition trim :: "string \<Rightarrow> string" where
  "trim s = rev (dropWhile isWhiteSpace (rev (dropWhile isWhiteSpace s)))"

definition isExponent :: "string \<Rightarrow> bool" where
  "isExponent s =
     (case s of
        [] \<Rightarrow> True
      | e # r \<Rightarrow> (e = CHR ''e'' \<or> e = CHR ''E'') \<and>
          (let ds = (case r of [] \<Rightarrow> [] | c # r' \<Rightarrow> if c = CHR ''+'' \<or> c = CHR ''-'' then r' else r)
           in ds \<noteq> [] \<and> list_all isDigit ds))"

definition isUnsignedDecimal :: "string \<Rightarrow> bool" where
  "isUnsignedDecimal s =
     (s = ''Infinity'' \<or>
      (let ip = takeWhile isDigit s; r = dropWhile isDigit s
       in case r of
            c # r' \<Rightarrow>
              if c = CHR ''.''
              then (ip \<noteq> [] \<or> takeWhile isDigit r' \<noteq> []) \<and> isExponent (dropWhile isDigit r')
              else ip \<noteq> [] \<and> isExponent r
          | [] \<Rightarrow> ip \<noteq> []))"

definition isRadixLiteral :: "string \<Rightarrow> bool" where
  "isRadixLiteral s =
     (case s of
        z # x # ds \<Rightarrow>
          z = CHR ''0'' \<and> ds \<noteq> [] \<and>
          (if x = CHR ''x'' \<or> x = CHR ''X'' then list_all (\<lambda>c. c \<in> set ''0123456789abcdefABCDEF'') ds
           else if x = CHR ''o'' \<or> x = CHR ''O'' then list_all (\<lambda>c. c \<in> set ''01234567'') ds
           else if x = CHR ''b'' \<or> x = CHR ''B'' then list_all (\<lambda>c. c \<in> set ''01'') ds
           else False)
      | _ \<Rightarrow> False)"

definition isNumeric :: "string \<Rightarrow> bool" where
  "isNumeric s =
     (let t = trim s
      in t = [] \<or> isRadixLiteral t \<or>
         (case t of
            c # r \<Rightarrow> if c = CHR ''+'' \<or> c = CHR ''-'' then isUnsignedDecimal r else isUnsignedDecimal t
          | [] \<Rightarrow> True))"

definition forbidden_key :: "string \<Rightarrow> bool" where
  "forbidden_key k = (k = ''__proto__'' \<or> k = ''constructor'' \<or> k = ''prototype'')"

text \<open>
  The loop of \<open>set\<close> over the keys, which returns the object as the loop leaves it. At
  a key that is not the last one the child \<open>object[key]\<close> is kept when it is an object
  or an array and replaced by a fresh container otherwise (what an object or an array
  inherits under a key that \<open>set\<close> accepts is a function or a number, so that the
  own property decides); at a forbidden key the loop returns. The assignment
  \<open>object[key] = newValue\<close> comes before the loop goes on inside \<open>object[key]\<close>.
\<close>

fun set_keys :: "jsval \<Rightarrow> string list \<Rightarrow> jsval \<Rightarrow> thrown + jsval" where
  "set_keys object [] v = Inr object"
| "set_keys object [key] v = (if forbidden_key key then Inr object else write_prop object key v)"
| "set_keys object (key # next # ks) v =
     (let objValue = get_prop object key;
          newValue = (if isObject objValue \<or> isArray objValue then objValue
                      else if isNumeric next then JArr [] else JObj [])
      in if forbidden_key key then Inr object
         else case write_prop object key newValue of
                Inl t \<Rightarrow> Inl t
              | Inr written \<Rightarrow>
                  (case set_keys newValue (next # ks) v of
                     Inl t \<Rightarrow> Inl t
                   | Inr child \<Rightarrow> Inr (put_prop written key child)))"

definition set_rhf :: "jsval \<Rightarrow> string \<Rightarrow> jsval \<Rightarrow> thrown + jsval" where
  "set_rhf object path v = set_keys object (path_keys path) v"

section \<open>The error normalizer\<close>

text \<open>\<open>input.replace(/\]|\[/g, '')\<close>\<close>

definition escapeBrackets :: "string \<Rightarrow> string" where
  "escapeBrackets input = filter (\<lambda>c. c \<noteq> CHR '']'' \<and> c \<noteq> CHR ''['') input"

text \<open>
  \<^verbatim>\<open>subject.match(`^${path}\\.\\d+`)\<close> builds a regular expression from the
  string and matches the subject against it. The path is pasted into the pattern as it
  is, so each of its characters is a pattern character. The model has these pattern
  characters: a dot matches any character but a line terminator, a parenthesis opens or
  closes a group, which does not change what is matched, \<open>^\<close> holds at the start of
  the subject and \<open>$\<close> at its end, and a character that is none of
  \<open>\ ^ $ . * + ? ( ) { |\<close> matches itself. A pattern whose groups are not closed, or
  that closes a group it has not opened, is not well formed: the construction raises a
  \<open>SyntaxError\<close>. A path with one of the operators \<open>\ * + ? { |\<close> is outside the
  model (and so is an opening square bracket, which \<open>escapeBrackets\<close> has removed).
\<close>

fun groups_closed :: "nat \<Rightarrow> string \<Rightarrow> bool" where
  "groups_closed depth [] = (depth = 0)"
| "groups_closed depth (c # cs) =
     (if c = CHR ''('' then groups_closed (Suc depth) cs
      else if c = CHR '')'' then depth \<noteq> 0 \<and> groups_closed (depth - 1) cs
      else groups_closed depth cs)"

definition without_groups :: "string \<Rightarrow> string" where
  "without_groups path = filter (\<lambda>c. c \<noteq> CHR ''('' \<and> c \<noteq> CHR '')'') path"

text \<open>
  \<open>match_path\<close> returns what is left of the subject after the path; \<open>start\<close> tells
  that no character of the subject has been matched yet.
\<close>

fun match_path :: "bool \<Rightarrow> string \<Rightarrow> string \<Rightarrow> string option" where
  "match_path start [] subject = Some subject"
| "match_path start (p # ps) subject =
     (if p = CHR ''^'' then (if start then match_path start ps subject else None)
      else if p = CHR ''$'' then (if subject = [] then match_path start ps subject else None)
      else (case subject of
              [] \<Rightarrow> None
            | c # cs \<Rightarrow>
                if (if p = CHR ''.'' then c \<noteq> CHR 0x0A \<and> c \<noteq> CHR 0x0D else p = c)
                then match_path False ps cs else None))"

text \<open>After the path the pattern asks for a dot and a digit.\<close>

definition match_array_item :: "string \<Rightarrow> string \<Rightarrow> bool" where
  "match_array_item path subject =
     (case match_path True path subject of
        Some (dot # d # rest) \<Rightarrow> dot = CHR ''.'' \<and> isDigit d
      | _ \<Rightarrow> False)"

definition regexp_match :: "string \<Rightarrow> string \<Rightarrow> thrown + bool" where
  "regexp_match path subject =
     (if list_ex (\<lambda>c. c \<in> set [CHR 0x5C, CHR ''*'', CHR ''+'', CHR ''?'', CHR ''{'', CHR ''|'',
                               CHR ''['']) path
      then Inl Unmodelled
      else if groups_closed 0 path then Inr (match_array_item (without_groups path) subject)
      else Inl SyntaxError)"

text \<open>
  \<open>names.some(...)\<close> calls the test on the names in turn, until one matches; what the
  test raises is raised by \<open>some\<close>.
\<close>

fun some_match :: "string \<Rightarrow> string list \<Rightarrow> thrown + bool" where
  "some_match path [] = Inr False"
| "some_match path (n # ns) =
     (case regexp_match path (escapeBrackets n) of
        Inl e \<Rightarrow> Inl e
      | Inr matched \<Rightarrow> if matched then Inr True else some_match path ns)"

definition isNameInFieldArray :: "string list \<Rightarrow> string \<Rightarrow> thrown + bool" where
  "isNameInFieldArray names name = (let path = escapeBrackets name in some_match path names)"

text \<open>
  The resolver options of the host library. \<open>names\<close> is optional; \<open>fields_registry\<close>
  (\<open>options.fields\<close>) is the registry, a tree of field descriptors that carry a
  \<open>ref\<close>.
\<close>

record ResolverOptions =
  criteriaMode :: "string option"
  fields_registry :: jsval
  names :: "string list option"
  shouldUseNativeValidation :: bool

text \<open>
  The flat error mapping: the properties of the \<open>errors\<close> object, one record for
  each path.
\<close>

type_synonym FieldErrors = "(string \<times> jsval) list"

definition lookup_error :: "FieldErrors \<Rightarrow> string \<Rightarrow> jsval" where
  "lookup_error errors path = (case map_of errors path of None \<Rightarrow> JUndefined | Some e \<Rightarrow> e)"

text \<open>\<open>options.names || Object.keys(errors)\<close>\<close>

definition field_names :: "'a ResolverOptions_scheme \<Rightarrow> FieldErrors \<Rightarrow> string list" where
  "field_names options errors = (case names options of Some ns \<Rightarrow> ns | None \<Rightarrow> own_keys errors)"

text \<open>
  One turn of the loop, on the pair of the caller's mapping and the tree under
  construction; it returns the mapping as the turn leaves it, and the tree or what the
  turn raises.

  Lines 20 to 23: the field descriptor is looked up in the registry and the error record
  (or a fresh object when the entry is falsy) receives \<open>ref: field && field.ref\<close>. No
  prototype has a property \<open>ref\<close>, so \<open>field.ref\<close> is the own property of a truthy
  field, or \<open>undefined\<close>. \<open>Object.assign\<close> writes \<open>ref\<close> into the caller's record
  itself, so the mapping is part of the state: its entry is updated when it holds a
  record, and left alone when it is falsy (the target is then a fresh object). This
  comes before the test of the name and before \<open>set\<close>: the record has its \<open>ref\<close>
  also when one of these raises.

  The mapping follows what \<open>Object.assign\<close> writes; what a later \<open>set\<close> writes into
  a record that is already in the tree (for a path that continues the path of the
  record) shows in the tree only.
  \<open>validateFieldsNatively\<close>, called first when native validation is on, reports
  messages to the DOM inputs and changes neither the mapping nor the tree; it is not
  part of the model.
\<close>

definition toNestErrors_step ::
  "'a ResolverOptions_scheme \<Rightarrow> FieldErrors \<times> jsval \<Rightarrow> string \<Rightarrow> FieldErrors \<times> (thrown + jsval)" where
  "toNestErrors_step options state path =
     (let errors = fst state; fieldErrors = snd state
      in case and_then (get_rhf (fields_registry options) path)
                (\<lambda>field. assign (js_or (lookup_error errors path) (JObj []))
                            (JObj [(''ref'', js_and field (get_prop field ''ref''))])) of
           Inl t \<Rightarrow> (errors, Inl t)
         | Inr error \<Rightarrow>
             (if truthy (lookup_error errors path) then AList.update path error errors else errors,
              and_then (isNameInFieldArray (field_names options errors) path)
                (\<lambda>inFieldArray.
                   if inFieldArray
                   then and_then (get_rhf fieldErrors path)
                          (\<lambda>found. and_then (assign (JObj []) found)
                          (\<lambda>fieldArrayErrors. and_then (set_rhf fieldArrayErrors ''root'' error)
                          (\<lambda>fieldArrayErrors'. set_rhf fieldErrors path fieldArrayErrors')))
                   else set_rhf fieldErrors path error)))"

fun toNestErrors_loop ::
  "'a ResolverOptions_scheme \<Rightarrow> FieldErrors \<times> jsval \<Rightarrow> string list \<Rightarrow> FieldErrors \<times> (thrown + jsval)" where
  "toNestErrors_loop options state [] = (fst state, Inr (snd state))"
| "toNestErrors_loop options state (path # paths) =
     (case toNestErrors_step options state path of
        (errors', Inl t) \<Rightarrow> (errors', Inl t)
      | (errors', Inr fieldErrors') \<Rightarrow> toNestErrors_loop options (errors', fieldErrors') paths)"

text \<open>
  \<open>toNestErrors\<close> gives the caller's mapping as the call leaves it, and the tree that
  it returns or what it raises.
\<close>

definition toNestErrors ::
  "FieldErrors \<Rightarrow> 'a ResolverOptions_scheme \<Rightarrow> FieldErrors \<times> (thrown + jsval)" where
  "toNestErrors errors options = toNestErrors_loop options (errors, JObj []) (own_keys errors)"

section \<open>Where the tree holds a record\<close>

text \<open>
  The vocabulary of the properties of \<open>toNestErrors\<close>. A container is an object or
  an array. \<open>walk\<close> goes down a tree along keys, from own property to own property,
  and stops at \<open>undefined\<close> and \<open>null\<close>. \<open>with_ref\<close> is the record of a path after
  \<open>Object.assign\<close> has given it the \<open>ref\<close> of the field. The record of a path is
  placed at the keys of the path, or under \<open>root\<close> below them when the path is the
  name of a field array.
\<close>

definition is_container :: "jsval \<Rightarrow> bool" where
  "is_container v = (isObject v \<or> isArray v)"

definition walk :: "jsval \<Rightarrow> string list \<Rightarrow> jsval" where
  "walk object ks =
     foldl (\<lambda>result key. if isNullOrUndefined result then result else get_prop result key)
       object ks"




section \<open>The run on own properties\<close>

text \<open>
  The functions of this section are those of the program with every read and every
  assignment taken on own properties. They never raise. A run of the program that
  returns has computed what they compute (this is proved below), so that the
  properties of a returned tree are properties of these functions.
\<close>

definition own_get :: "jsval \<Rightarrow> string \<Rightarrow> jsval" where
  "own_get object path =
     (if path = [] \<or> \<not> isObject object then JUndefined
      else let ks = path_keys path; result = walk object ks
           in if isUndefined result \<or> ks = [] then get_prop object path else result)"

fun own_set_keys :: "jsval \<Rightarrow> string list \<Rightarrow> jsval \<Rightarrow> jsval" where
  "own_set_keys object [] v = object"
| "own_set_keys object [key] v = (if forbidden_key key then object else put_prop object key v)"
| "own_set_keys object (key # next # ks) v =
     (let objValue = get_prop object key;
          newValue = (if isObject objValue \<or> isArray objValue then objValue
                      else if isNumeric next then JArr [] else JObj [])
      in if forbidden_key key then object
         else put_prop object key (own_set_keys newValue (next # ks) v))"

definition own_set :: "jsval \<Rightarrow> string \<Rightarrow> jsval \<Rightarrow> jsval" where
  "own_set object path v = own_set_keys object (path_keys path) v"

definition field_ref :: "'a ResolverOptions_scheme \<Rightarrow> string \<Rightarrow> jsval" where
  "field_ref options path =
     (let field = own_get (fields_registry options) path in js_and field (get_prop field ''ref''))"

definition error_with_ref :: "'a ResolverOptions_scheme \<Rightarrow> FieldErrors \<Rightarrow> string \<Rightarrow> jsval" where
  "error_with_ref options errors path =
     object_assign (js_or (lookup_error errors path) (JObj []))
       (JObj [(''ref'', field_ref options path)])"

definition nest_step ::
  "'a ResolverOptions_scheme \<Rightarrow> FieldErrors \<times> jsval \<Rightarrow> string \<Rightarrow> FieldErrors \<times> jsval" where
  "nest_step options state path =
     (let errors = fst state; fieldErrors = snd state;
          error = error_with_ref options errors path;
          errors' = (if truthy (lookup_error errors path) then AList.update path error errors
                     else errors)
      in if isNameInFieldArray (field_names options errors) path = Inr True
         then let fieldArrayErrors = object_assign (JObj []) (own_get fieldErrors path);
                  fieldArrayErrors' = own_set fieldArrayErrors ''root'' error
              in (errors', own_set fieldErrors path fieldArrayErrors')
         else (errors', own_set fieldErrors path error))"

definition nest_loop :: "FieldErrors \<Rightarrow> 'a ResolverOptions_scheme \<Rightarrow> FieldErrors \<times> jsval" where
  "nest_loop errors options = foldl (nest_step options) (errors, JObj []) (own_keys errors)"


section \<open>The Joi resolver\<close>

text \<open>The decimal digits of a number, as \<open>String(n)\<close> writes an array index.\<close>

fun string_of_nat :: "nat \<Rightarrow> string" where
  "string_of_nat n =
     (if n < 10 then [''0123456789'' ! n]
      else string_of_nat (n div 10) @ [''0123456789'' ! (n mod 10)])"

declare string_of_nat.simps [simp del]

fun path_item_string :: "path_item \<Rightarrow> string" where
  "path_item_string (Key k) = k"
| "path_item_string (Index i) = string_of_nat i"

text \<open>\<open>xs.join('.')\<close>\<close>

fun join_dot :: "string list \<Rightarrow> string" where
  "join_dot [] = []"
| "join_dot [x] = x"
| "join_dot (x # y # ys) = x @ CHR ''.'' # join_dot (y # ys)"

definition joined_path :: "ValidationErrorItem \<Rightarrow> string" where
  "joined_path error = join_dot (map path_item_string (item_path error))"

text \<open>An array literal, and \<open>[].concat(a, b)\<close>, which spreads an argument that is an array.\<close>

definition js_array :: "jsval list \<Rightarrow> jsval" where
  "js_array xs = JArr (zip (map string_of_nat [0..<length xs]) xs)"

fun concat_items :: "jsval \<Rightarrow> jsval list" where
  "concat_items (JArr ps) = map snd ps"
| "concat_items v = [v]"

definition js_concat :: "jsval \<Rightarrow> jsval \<Rightarrow> jsval" where
  "js_concat a b = js_array (concat_items a @ concat_items b)"

text \<open>
  \<open>appendErrors\<close> of react-hook-form (not part of this repository), after that library:
  \<^verbatim>\<open>validateAllFieldCriteria
    ? { ...errors[name],
        types: { ...(errors[name] && errors[name].types ? errors[name].types : {}),
                 [type]: message || true } }
    : {}\<close>
  The spreads and the keys of the literals define own properties. When \<open>errors[name]\<close>
  is an inherited function the spread copies nothing and \<open>errors[name].types\<close> is
  \<open>undefined\<close>, as when there is no entry.
\<close>

definition appendErrors :: "string \<Rightarrow> bool \<Rightarrow> FieldErrors \<Rightarrow> string \<Rightarrow> jsval \<Rightarrow> jsval" where
  "appendErrors name validateAllFieldCriteria errors type message =
     (if validateAllFieldCriteria
      then let entry = lookup_error errors name;
               types = (if truthy (js_and entry (get_prop entry ''types''))
                        then get_prop entry ''types'' else JObj [])
           in put_prop (object_assign (JObj []) entry) ''types''
                (put_prop (object_assign (JObj []) types) type
                   (js_or message (JBool True)))
      else JObj [])"

text \<open>
  The function that \<open>parseErrorSchema\<close> reduces the details with. \<open>previous\<close> is a
  plain object, so \<open>previous[_path]\<close> is read through the prototype: it is truthy for
  a path that is the name of an inherited property, before any entry is written.
  The entries are objects that the function itself has built, and so are their
  \<open>types\<close>: \<open>previous[_path].types\<close> is the own property, and \<open>undefined\<close> when
  \<open>previous[_path]\<close> is inherited. The assignment to \<open>previous[_path]\<close> defines
  the entry, except for the path \<open>__proto__\<close>, which is outside the model.
\<close>

definition parseErrorSchema_step ::
  "bool \<Rightarrow> FieldErrors \<Rightarrow> ValidationErrorItem \<Rightarrow> thrown + FieldErrors" where
  "parseErrorSchema_step validateAllFieldCriteria previous error =
     (let path' = joined_path error;
          previous' =
            (if \<not> truthy_prop previous path'
             then AList.update path'
                    (JObj [(''message'', JStr (item_message error)),
                           (''type'', JStr (item_type error))]) previous
             else previous)
      in if validateAllFieldCriteria
         then let types = get_prop (lookup_error previous' path') ''types''
              in and_then (if truthy types then read_prop types (item_type error) else Inr types)
                   (\<lambda>messages.
                      if path' = ''__proto__'' then Inl Unmodelled
                      else Inr (AList.update path'
                             (appendErrors path' validateAllFieldCriteria previous'
                                (item_type error)
                                (if truthy messages
                                 then js_concat messages (JStr (item_message error))
                                 else JStr (item_message error)))
                             previous'))
         else Inr previous')"

text \<open>\<open>details.reduce(..., {})\<close>\<close>

fun parse_details ::
  "bool \<Rightarrow> FieldErrors \<Rightarrow> ValidationErrorItem list \<Rightarrow> thrown + FieldErrors" where
  "parse_details validateAllFieldCriteria previous [] = Inr previous"
| "parse_details validateAllFieldCriteria previous (error # details) =
     (case parseErrorSchema_step validateAllFieldCriteria previous error of
        Inl t \<Rightarrow> Inl t
      | Inr previous' \<Rightarrow> parse_details validateAllFieldCriteria previous' details)"

text \<open>
  \<open>parseErrorSchema\<close> reads \<open>error.details.length\<close> first: on an error without
  details that raises a \<open>TypeError\<close>.
\<close>

fun parseErrorSchema :: "thrown \<Rightarrow> bool \<Rightarrow> thrown + FieldErrors" where
  "parseErrorSchema (ValidationError details) validateAllFieldCriteria =
     (if details \<noteq> [] then parse_details validateAllFieldCriteria [] details else Inr [])"
| "parseErrorSchema Unmodelled validateAllFieldCriteria = Inl Unmodelled"
| "parseErrorSchema e validateAllFieldCriteria = Inl TypeError"


text \<open>
  The schema is the external collaborator. \<open>validate\<close> returns an object with the
  value and, on failure, the error, or throws; \<open>validateAsync\<close> resolves with the value
  or rejects. Both take the values and the options.
\<close>

record ValidationResult =
  result_error :: "thrown option"
  result_value :: jsval

record Schema =
  validate :: "jsval \<Rightarrow> jsval \<Rightarrow> thrown + ValidationResult"
  validateAsync :: "jsval \<Rightarrow> jsval \<Rightarrow> thrown + jsval"

record JoiResolverOptions =
  mode :: "string option"

record ResolverResult =
  res_values :: jsval
  res_errors :: jsval

text \<open>The entry points of the schema that a run of the resolver calls, with their arguments.\<close>

datatype schema_call = CallValidate jsval jsval | CallValidateAsync jsval jsval

text \<open>
  \<open>Object.assign({}, schemaOptions, { context })\<close>, the options defaulting to
  \<open>{ abortEarly: false }\<close> when the argument is \<open>undefined\<close>.
\<close>

definition schema_options :: "jsval \<Rightarrow> jsval \<Rightarrow> jsval" where
  "schema_options schemaOptions context =
     (let given = (if isUndefined schemaOptions then JObj [(''abortEarly'', JBool False)]
                   else schemaOptions)
      in object_assign (object_assign (JObj []) given) (JObj [(''context'', context)]))"

text \<open>
  Lines 78 to 97, on the \<open>result\<close> object. The resolver is an \<open>async\<close> function: what
  is thrown in it rejects its promise, which is \<open>Inl\<close> here. (On success with native
  validation on, \<open>validateFieldsNatively\<close> clears the messages of the DOM inputs; it
  is not part of the model.)
\<close>

definition resolve_result ::
  "'a ResolverOptions_scheme \<Rightarrow> ValidationResult \<Rightarrow> thrown + ResolverResult" where
  "resolve_result options result =
     (case result_error result of
        Some e \<Rightarrow>
          (case parseErrorSchema e
                  (\<not> shouldUseNativeValidation options \<and> criteriaMode options = Some ''all'') of
             Inl t \<Rightarrow> Inl t
           | Inr parsed \<Rightarrow>
               (case snd (toNestErrors parsed options) of
                  Inl t \<Rightarrow> Inl t
                | Inr nested \<Rightarrow> Inr \<lparr>res_values = JObj [], res_errors = nested\<rparr>))
      | None \<Rightarrow> Inr \<lparr>res_values = result_value result, res_errors = JObj []\<rparr>)"

text \<open>
  The resolver: the calls it makes to the schema, and its outcome. In \<open>sync\<close> mode the
  result object is what \<open>validate\<close> returns, and what \<open>validate\<close> throws is not caught;
  otherwise the result object starts empty and receives the value that
  \<open>validateAsync\<close> resolves with, or the error it rejects with.
\<close>

definition joiResolver ::
  "Schema \<Rightarrow> jsval \<Rightarrow> JoiResolverOptions \<Rightarrow> jsval \<Rightarrow> jsval \<Rightarrow> 'a ResolverOptions_scheme
     \<Rightarrow> schema_call list \<times> (thrown + ResolverResult)" where
  "joiResolver schema schemaOptions resolverOptions vals context options =
     (let schemaOptions' = schema_options schemaOptions context
      in if mode resolverOptions = Some ''sync''
         then ([CallValidate vals schemaOptions'],
               (case validate schema vals schemaOptions' of
                  Inl e \<Rightarrow> Inl e
                | Inr result \<Rightarrow> resolve_result options result))
         else ([CallValidateAsync vals schemaOptions'],
               (case validateAsync schema vals schemaOptions' of
                  Inr v \<Rightarrow> resolve_result options \<lparr>result_error = None, result_value = v\<rparr>
                | Inl e \<Rightarrow>
                    resolve_result options \<lparr>result_error = Some e, result_value = JUndefined\<rparr>)))"

section \<open>Outcomes of the validation, and sample data\<close>

text \<open>
  The validation succeeds with a value: \<open>validate\<close> returns a result without error, or
  \<open>validateAsync\<close> resolves. It fails with an error: \<open>validate\<close> returns a result
  that carries it, or \<open>validateAsync\<close> rejects with it.
\<close>

definition validation_succeeds ::
  "Schema \<Rightarrow> JoiResolverOptions \<Rightarrow> jsval \<Rightarrow> jsval \<Rightarrow> jsval \<Rightarrow> bool" where
  "validation_succeeds schema resolverOptions vals schemaOptions' v =
     (if mode resolverOptions = Some ''sync''
      then validate schema vals schemaOptions' = Inr \<lparr>result_error = None, result_value = v\<rparr>
      else validateAsync schema vals schemaOptions' = Inr v)"

definition validation_fails ::
  "Schema \<Rightarrow> JoiResolverOptions \<Rightarrow> jsval \<Rightarrow> jsval \<Rightarrow> thrown \<Rightarrow> bool" where
  "validation_fails schema resolverOptions vals schemaOptions' e =
     (if mode resolverOptions = Some ''sync''
      then (case validate schema vals schemaOptions' of
              Inr result \<Rightarrow> result_error result = Some e
            | Inl t \<Rightarrow> False)
      else validateAsync schema vals schemaOptions' = Inl e)"

text \<open>
  A schema with one required field \<open>name\<close>: the empty object fails, anything else
  passes. The options register that field.
\<close>

definition name_required :: thrown where
  "name_required =
     ValidationError
       [\<lparr>item_message = ''required'', item_path = [Key ''name''], item_type = ''any.required''\<rparr>]"

definition sample_schema :: Schema where
  "sample_schema =
     \<lparr>validate = (\<lambda>v so. if v = JObj []
                          then Inr \<lparr>result_error = Some name_required, result_value = v\<rparr>
                          else Inr \<lparr>result_error = None, result_value = v\<rparr>),
      validateAsync = (\<lambda>v so. if v = JObj [] then Inl name_required else Inr v)\<rparr>"

definition sample_options :: ResolverOptions where
  "sample_options =
     \<lparr>criteriaMode = None,
      fields_registry =
        JObj [(''name'', JObj [(''ref'', JStr ''input#name''), (''name'', JStr ''name'')])],
      names = Some [''name''],
      shouldUseNativeValidation = False\<rparr>"

definition sync_mode :: JoiResolverOptions where
  "sync_mode = \<lparr>mode = Some ''sync''\<rparr>"

definition default_mode :: JoiResolverOptions where
  "default_mode = \<lparr>mode = None\<rparr>"

text \<open>
  A schema whose required key is \<open>a(\<close>, as \<open>Joi.object({'a(': Joi.required()})\<close>: every
  validation fails with one item, whose path is that key. The options register the
  field under its name.
\<close>

definition group_required :: thrown where
  "group_required =
     ValidationError
       [\<lparr>item_message = ''required'', item_path = [Key ''a(''], item_type = ''any.required''\<rparr>]"

definition group_schema :: Schema where
  "group_schema =
     \<lparr>validate = (\<lambda>v so. Inr \<lparr>result_error = Some group_required, result_value = v\<rparr>),
      validateAsync = (\<lambda>v so. Inl group_required)\<rparr>"

definition group_options :: ResolverOptions where
  "group_options =
     \<lparr>criteriaMode = None,
      fields_registry = JObj [(''a('', JObj [(''ref'', JStr ''input#a(''), (''name'', JStr ''a('')])],
      names = Some [''a(''],
      shouldUseNativeValidation = False\<rparr>"

text \<open>
  A schema whose required key is \<open>b)\<close>, in a form that gives no names to the
  resolver: the names are then the keys of the parsed mapping.
\<close>

definition closing_required :: thrown where
  "closing_required =
     ValidationError
       [\<lparr>item_message = ''required'', item_path = [Key ''b)''], item_type = ''any.required''\<rparr>]"

definition closing_schema :: Schema where
  "closing_schema =
     \<lparr>validate = (\<lambda>v so. Inr \<lparr>result_error = Some closing_required, result_value = v\<rparr>),
      validateAsync = (\<lambda>v so. Inl closing_required)\<rparr>"

definition closing_options :: ResolverOptions where
  "closing_options =
     \<lparr>criteriaMode = None,
      fields_registry = JObj [(''b)'', JObj [(''ref'', JStr ''input#b)''), (''name'', JStr ''b)'')])],
      names = None,
      shouldUseNativeValidation = False\<rparr>"

text \<open>
  A schema whose two entry points disagree: \<open>validate\<close> reports that the name is
  required, \<open>validateAsync\<close> resolves with the values it is given.
\<close>

definition split_schema :: Schema where
  "split_schema =
     \<lparr>validate = (\<lambda>v so. Inr \<lparr>result_error = Some name_required, result_value = v\<rparr>),
      validateAsync = (\<lambda>v so. Inr v)\<rparr>"

section \<open>What the parsed mapping should hold\<close>

text \<open>
  The specification of \<open>parseErrorSchema\<close>, in terms of the details: the first item
  reported for a path, the messages reported for a path under a type, in order, and the
  value that collects them (the message itself, \<open>true\<close> for an empty message, or the
  array of the messages when there are several).
\<close>







definition first_error_entry :: "ValidationErrorItem \<Rightarrow> jsval" where
  "first_error_entry d =
     JObj [(''message'', JStr (item_message d)), (''type'', JStr (item_type d))]"

definition all_entry :: "ValidationErrorItem \<Rightarrow> (string \<times> jsval) list \<Rightarrow> jsval" where
  "all_entry d T =
     JObj [(''message'', JStr (item_message d)), (''type'', JStr (item_type d)), (''types'', JObj T)]"


section \<open>Sample error mappings\<close>

text \<open>
  A form with the field array \<open>items\<close>, whose items have a \<open>name\<close>: the item
  \<open>items.0.name\<close> is required, and the array itself is too short. Then a form whose
  array holds plain inputs, with an error on the item \<open>items.0\<close>, and a form with the
  nested field \<open>a.b\<close>, with an error on the field and one on the object \<open>a\<close> that
  holds it.
\<close>

definition required_error :: jsval where
  "required_error = JObj [(''message'', JStr ''required''), (''type'', JStr ''any.required'')]"

definition min_error :: jsval where
  "min_error = JObj [(''message'', JStr ''at least 2 items''), (''type'', JStr ''array.min'')]"

definition items_options :: ResolverOptions where
  "items_options =
     \<lparr>criteriaMode = None,
      fields_registry =
        JObj [(''items'',
               JArr [(''0'', JObj [(''name'', JObj [(''ref'', JStr ''input#items.0.name''),
                                                    (''name'', JStr ''items.0.name'')])])])],
      names = Some [''items.0.name''],
      shouldUseNativeValidation = False\<rparr>"

definition items_errors :: FieldErrors where
  "items_errors = [(''items.0.name'', required_error), (''items'', min_error)]"








section \<open>Properties of objects\<close>



lemma get_put_arr:
  "get_prop (put_prop (JArr ps) k v) k' = (if k' = k then v else get_prop (JArr ps) k')"
  by (simp add: get_prop_def update_conv')





lemma not_index: "\<not> isDigit c \<Longrightarrow> \<not> isArrayIndex (c # cs)"
  by (auto simp: isArrayIndex_def isDigit_def)


lemma update_fresh: "k \<notin> fst ` set ps \<Longrightarrow> AList.update k v ps = ps @ [(k, v)]"
  by (induction ps) auto

lemma copy_fresh:
  "distinct (map fst (qs @ ps)) \<Longrightarrow>
   foldl (\<lambda>t k. put_prop t k (get_prop (JObj (qs @ ps)) k)) (JObj qs) (map fst ps) =
     JObj (qs @ ps)"
proof (induction ps arbitrary: qs)
  case Nil
  then show ?case by simp
next
  case (Cons p ps)
  have fresh: "fst p \<notin> fst ` set qs" using Cons.prems by auto
  then have "map_of (qs @ p # ps) (fst p) = Some (snd p)"
    by (simp add: map_add_def map_of_eq_None_iff [THEN iffD2])
  then have "get_prop (JObj (qs @ p # ps)) (fst p) = snd p" by (simp add: get_prop_def)
  moreover have "AList.update (fst p) (snd p) qs = qs @ [p]"
    using fresh by (simp add: update_fresh)
  moreover have "distinct (map fst ((qs @ [p]) @ ps))" using Cons.prems by simp
  ultimately show ?case using Cons.IH [of "qs @ [p]"] by simp
qed

lemma own_keys_plain:
  "list_all (\<lambda>k. \<not> isArrayIndex k) (map fst ps) \<Longrightarrow> own_keys ps = map fst ps"
  by (simp add: own_keys_def Let_def list_all_iff filter_id_conv filter_empty_conv)

lemma object_assign_same:
  assumes "distinct (map fst ps)" and "list_all (\<lambda>k. \<not> isArrayIndex k) (map fst ps)"
  shows "object_assign (JObj []) (JObj ps) = JObj ps"
  using copy_fresh [of "[]" ps] assms by (simp add: object_assign_def own_keys_plain)

lemma object_assign_single: "object_assign t (JObj [(k, v)]) = put_prop t k v"
  by (simp add: object_assign_def own_keys_def get_prop_def)

lemma object_assign_undefined: "object_assign t JUndefined = t"
  by (simp add: object_assign_def own_keys_def)


section \<open>Properties of the step on own properties\<close>

lemma not_index_message [simp]: "\<not> isArrayIndex ''message''" "\<not> isArrayIndex ''type''"
  "\<not> isArrayIndex ''types''" "\<not> isArrayIndex ''ref''" "\<not> isArrayIndex ''context''"
  by (simp_all add: isArrayIndex_def isDigit_def)







lemma truthy_first_entry [simp]: "truthy (first_error_entry d)"
  by (simp add: first_error_entry_def)

lemma truthy_all_entry [simp]: "truthy (all_entry d T)"
  by (simp add: all_entry_def)

lemma types_first_entry [simp]: "get_prop (first_error_entry d) ''types'' = JUndefined"
  by (simp add: first_error_entry_def get_prop_def)

lemma types_all_entry [simp]: "get_prop (all_entry d T) ''types'' = JObj T"
  by (simp add: all_entry_def get_prop_def)















section \<open>What \<open>parseErrorSchema\<close> returns\<close>


lemma and_then_Inl: "(and_then m f = Inl t) = (m = Inl t \<or> (\<exists>x. m = Inr x \<and> f x = Inl t))"
  by (cases m) simp_all

lemma read_prop_own: "read_prop v k = Inr x \<Longrightarrow> x = get_prop v k"
  by (auto simp: read_prop_def get_prop_def split: if_splits option.splits)























section \<open>Properties of \<open>get\<close> and \<open>set\<close> on own properties\<close>

lemma walk_Nil [simp]: "walk t [] = t"
  by (simp add: walk_def)

lemma walk_Cons:
  "walk t (k # ks) = (if isNullOrUndefined t then walk t ks else walk (get_prop t k) ks)"
  by (simp add: walk_def)










lemma isObject_put: "isObject t \<Longrightarrow> isObject (put_prop t k v)"
  by (cases t) simp_all

lemma isObject_set_keys: "isObject t \<Longrightarrow> isObject (own_set_keys t ks v)"
  by (induction t ks v rule: own_set_keys.induct) (auto simp: Let_def isObject_put)

lemma fresh_container:
  "is_container (if isObject x \<or> isArray x then x else if b then JArr [] else JObj [])"
  by (simp add: is_container_def)





lemma root_keys: "path_keys ''root'' = [''root'']"
  by (simp add: path_keys_def isKey_def isWordChar_def)




section \<open>Properties of the turn on own properties\<close>




lemma step_fst:
  "fst (nest_step options (es, t) q) =
     (if truthy (lookup_error es q) then AList.update q (error_with_ref options es q) es else es)"
  by (simp add: nest_step_def Let_def)

lemma step_snd:
  "snd (nest_step options (es, t) q) =
     (if isNameInFieldArray (field_names options es) q = Inr True
      then own_set t q (own_set (object_assign (JObj []) (own_get t q)) ''root''
                          (error_with_ref options es q))
      else own_set t q (error_with_ref options es q))"
  by (simp add: nest_step_def Let_def)

lemma truthy_lookup_key: "truthy (lookup_error es q) \<Longrightarrow> q \<in> set (map fst es)"
proof -
  assume "truthy (lookup_error es q)"
  then have "map_of es q \<noteq> None" by (cases "map_of es q") (simp_all add: lookup_error_def)
  then show ?thesis by (simp add: map_of_eq_None_iff)
qed

lemma step_keys: "map fst (fst (nest_step options (es, t) q)) = map fst es"
proof (cases "truthy (lookup_error es q)")
  case True
  then have "q \<in> set (map fst es)" by (rule truthy_lookup_key)
  then show ?thesis using True by (simp add: step_fst update_keys del: set_map)
next
  case False
  then show ?thesis by (simp add: step_fst)
qed

lemma step_lookup_other:
  "p \<noteq> q \<Longrightarrow> lookup_error (fst (nest_step options (es, t) q)) p = lookup_error es p"
  by (simp add: step_fst lookup_error_def update_conv')

lemma step_isObject: "isObject t \<Longrightarrow> isObject (snd (nest_step options (es, t) q))"
  by (simp add: step_snd own_set_def isObject_set_keys)

lemma field_names_keys: "map fst es' = map fst es \<Longrightarrow> field_names options es' = field_names options es"
  by (simp add: field_names_def own_keys_def cong: option.case_cong)














section \<open>Properties of the loop on own properties\<close>

lemma object_assign_single_arr: "object_assign t (JArr [(k, v)]) = put_prop t k v"
  by (simp add: object_assign_def own_keys_def get_prop_def)

lemma keys_items: "path_keys ''items'' = [''items'']" "path_keys ''a'' = [''a'']"
  by (simp_all add: path_keys_def isKey_def isWordChar_def)

lemma keys_dotted:
  "path_keys ''items.0.name'' = [''items'', ''0'', ''name'']"
  "path_keys ''items.0'' = [''items'', ''0'']"
  "path_keys ''a.b'' = [''a'', ''b'']"
  by (simp_all add: path_keys_def isKey_def isWordChar_def stringToPath_def compact_def)


lemma distinct_own_keys: "distinct (map fst ps) \<Longrightarrow> distinct (own_keys ps)"
  by (auto simp: own_keys_def Let_def distinct_map_filter)





lemma items_min_error:
  "error_with_ref items_options items_errors ''items'' =
     JObj [(''message'', JStr ''at least 2 items''), (''type'', JStr ''array.min''),
           (''ref'', JUndefined)]"
  by (simp add: error_with_ref_def field_ref_def lookup_error_def items_errors_def
      items_options_def min_error_def object_assign_single own_get_def keys_items
      walk_def get_prop_def js_and_def js_or_def)

lemma items_required_error:
  "error_with_ref items_options items_errors ''items.0.name'' =
     JObj [(''message'', JStr ''required''), (''type'', JStr ''any.required''),
           (''ref'', JStr ''input#items.0.name'')]"
  by (simp add: error_with_ref_def field_ref_def lookup_error_def items_errors_def
      items_options_def required_error_def object_assign_single own_get_def keys_dotted
      walk_def get_prop_def js_and_def js_or_def)






section \<open>What a run that returns has computed\<close>



lemma get_loop_walk: "get_loop t ks = Inr v \<Longrightarrow> v = walk t ks"
proof (induction ks arbitrary: t)
  case Nil
  then show ?case by simp
next
  case (Cons k ks)
  show ?case
  proof (cases "isNullOrUndefined t")
    case True
    then show ?thesis using Cons by (simp add: walk_Cons)
  next
    case False
    then obtain r where r: "read_prop t k = Inr r" "get_loop r ks = Inr v"
      using Cons.prems by (auto split: sum.splits)
    then have "r = get_prop t k" by (simp add: read_prop_own)
    then show ?thesis using False r(2) Cons.IH by (simp add: walk_Cons)
  qed
qed

lemma get_rhf_own: "get_rhf object path = Inr v \<Longrightarrow> v = own_get object path"
  by (auto simp: get_rhf_def own_get_def Let_def dest: get_loop_walk read_prop_own
           split: if_splits sum.splits)

lemma put_put: "put_prop (put_prop object k a) k b = put_prop object k b"
proof -
  have "\<And>ps. AList.update k b (AList.update k a ps) = AList.update k b ps"
  proof -
    fix ps :: "(string \<times> jsval) list"
    show "AList.update k b (AList.update k a ps) = AList.update k b ps"
      by (induction ps) auto
  qed
  then show ?thesis by (cases object) simp_all
qed















section \<open>The sample mappings, evaluated\<close>

lemma array_samples:
  "isNameInFieldArray [''items.0.name''] ''items'' = Inr True"
  "isNameInFieldArray [''items.0.name''] ''items.0.name'' = Inr False"
  "isNameInFieldArray [''items.0''] ''items'' = Inr True"
  "isNameInFieldArray [''items.0''] ''items.0'' = Inr False"
  "isNameInFieldArray [''a.b''] ''a.b'' = Inr False"
  "isNameInFieldArray [''a.b''] ''a'' = Inr False"
  "isNameInFieldArray [''name''] ''name'' = Inr False"
  "isNameInFieldArray [] p = Inr False"
  by (simp_all add: isNameInFieldArray_def escapeBrackets_def regexp_match_def
      without_groups_def match_array_item_def isDigit_def)

lemma keys_length:
  "path_keys ''x.0'' = [''x'', ''0'']"
  "path_keys ''x.length'' = [''x'', ''length'']"
  "path_keys ''z'' = [''z'']"
  by (simp_all add: path_keys_def isKey_def isWordChar_def stringToPath_def compact_def)


lemmas run_defs =
  toNestErrors_step_def field_names_def array_samples lookup_error_def get_rhf_def
  read_prop_def inherited_def object_prototype_names_def assign_def write_prop_def set_rhf_def
  keys_items keys_dotted keys_length get_prop_def js_and_def js_or_def
  object_assign_single object_assign_single_arr object_assign_same object_assign_undefined
  not_index isDigit_def forbidden_key_def isNumeric_def trim_def isWhiteSpace_def
  isRadixLiteral_def isUnsignedDecimal_def isExponent_def root_keys Let_def







section \<open>Properties of \<open>toNestErrors\<close>\<close>





text \<open>
  A mapping without field arrays: when the registry can be read at every path, every
  entry is a record or falsy, no path is the name of a field array and no key is
  \<open>length\<close>, the call returns.
\<close>

lemma set_keys_returns:
  "is_container object \<Longrightarrow> ''length'' \<notin> set ks \<Longrightarrow>
   set_keys object ks v = Inr (own_set_keys object ks v)"
proof (induction object ks v rule: own_set_keys.induct)
  case (1 object v)
  then show ?case by simp
next
  case (2 object key v)
  then show ?case
    by (auto simp: write_prop_def forbidden_key_def is_container_def)
next
  case (3 object key "next" ks v)
  let ?objValue = "get_prop object key"
  let ?newValue = "if isObject ?objValue \<or> isArray ?objValue then ?objValue
                   else if isNumeric next then JArr [] else JObj []"
  show ?case
  proof (cases "forbidden_key key")
    case True
    then show ?thesis by (simp add: Let_def)
  next
    case False
    have c: "is_container ?newValue" by (rule fresh_container)
    have n: "''length'' \<notin> set (next # ks)" using "3.prems"(2) by simp
    have "set_keys ?newValue (next # ks) v = Inr (own_set_keys ?newValue (next # ks) v)"
      using "3.IH" [OF refl refl False c n] .
    moreover have "write_prop object key ?newValue = Inr (put_prop object key ?newValue)"
      using False "3.prems" by (auto simp: write_prop_def forbidden_key_def is_container_def)
    ultimately show ?thesis using False by (simp add: Let_def put_put)
  qed
qed

lemma turn_returns:
  assumes "get_rhf (fields_registry options) p = Inr field"
    and "is_container (lookup_error es p) \<or> \<not> truthy (lookup_error es p)"
    and "isNameInFieldArray (field_names options es) p = Inr False"
    and "isObject t"
    and "''length'' \<notin> set (path_keys p)"
  shows "toNestErrors_step options (es, t) p =
           (fst (nest_step options (es, t) p), Inr (snd (nest_step options (es, t) p)))"
proof -
  have f: "field = own_get (fields_registry options) p" using get_rhf_own [OF assms(1)] .
  have c: "is_container (js_or (lookup_error es p) (JObj []))"
    using assms(2) by (auto simp: js_or_def is_container_def)
  have a: "assign (js_or (lookup_error es p) (JObj []))
             (JObj [(''ref'', js_and field (get_prop field ''ref''))]) =
           Inr (error_with_ref options es p)"
    using c f by (simp add: assign_def is_container_def error_with_ref_def field_ref_def Let_def)
  have ct: "is_container t" using assms(4) by (cases t) (simp_all add: is_container_def)
  have s: "set_rhf t p (error_with_ref options es p) = Inr (own_set t p (error_with_ref options es p))"
    using set_keys_returns [OF ct assms(5)] by (simp add: set_rhf_def own_set_def)
  show ?thesis
    using assms(1,3) a s by (simp add: toNestErrors_step_def nest_step_def Let_def)
qed

lemma loop_returns:
  assumes "distinct ks"
    and "\<forall>p \<in> set ks.
           (\<exists>field. get_rhf (fields_registry options) p = Inr field) \<and>
           (is_container (lookup_error (fst st) p) \<or> \<not> truthy (lookup_error (fst st) p)) \<and>
           isNameInFieldArray (field_names options (fst st)) p = Inr False \<and>
           ''length'' \<notin> set (path_keys p)"
    and "isObject (snd st)"
  shows "toNestErrors_loop options st ks =
           (fst (foldl (nest_step options) st ks), Inr (snd (foldl (nest_step options) st ks)))"
  using assms
proof (induction ks arbitrary: st)
  case Nil
  then show ?case by simp
next
  case (Cons k ks)
  obtain es t where st: "st = (es, t)" by (cases st)
  obtain field where f: "get_rhf (fields_registry options) k = Inr field"
    using Cons.prems(2) by auto
  have s: "toNestErrors_step options (es, t) k =
             (fst (nest_step options (es, t) k), Inr (snd (nest_step options (es, t) k)))"
    using Cons.prems(2,3) st by (intro turn_returns [OF f]) simp_all
  let ?st = "nest_step options (es, t) k"
  have k: "map fst (fst ?st) = map fst es" by (rule step_keys)
  have n: "field_names options (fst ?st) = field_names options es"
    using field_names_keys [OF k] .
  have a: "\<forall>p \<in> set ks.
           (\<exists>field. get_rhf (fields_registry options) p = Inr field) \<and>
           (is_container (lookup_error (fst ?st) p) \<or> \<not> truthy (lookup_error (fst ?st) p)) \<and>
           isNameInFieldArray (field_names options (fst ?st)) p = Inr False \<and>
           ''length'' \<notin> set (path_keys p)"
  proof
    fix p assume p: "p \<in> set ks"
    then have "p \<noteq> k" using Cons.prems(1) by auto
    then have "lookup_error (fst ?st) p = lookup_error es p" by (rule step_lookup_other)
    then show "(\<exists>field. get_rhf (fields_registry options) p = Inr field) \<and>
           (is_container (lookup_error (fst ?st) p) \<or> \<not> truthy (lookup_error (fst ?st) p)) \<and>
           isNameInFieldArray (field_names options (fst ?st)) p = Inr False \<and>
           ''length'' \<notin> set (path_keys p)"
      using Cons.prems(2) p st n by simp
  qed
  have o: "isObject (snd ?st)" using Cons.prems(3) st by (simp add: step_isObject)
  have d: "distinct ks" using Cons.prems(1) by simp
  show ?case using Cons.IH [OF d a o] s st by simp
qed

lemma toNestErrors_returns:
  assumes "distinct (map fst errors)"
    and "\<forall>p \<in> set (own_keys errors).
           (\<exists>field. get_rhf (fields_registry options) p = Inr field) \<and>
           (is_container (lookup_error errors p) \<or> \<not> truthy (lookup_error errors p)) \<and>
           isNameInFieldArray (field_names options errors) p = Inr False \<and>
           ''length'' \<notin> set (path_keys p)"
  shows "toNestErrors errors options =
           (fst (nest_loop errors options), Inr (snd (nest_loop errors options)))"
  using loop_returns [of "own_keys errors" options "(errors, JObj [])"]
    distinct_own_keys [OF assms(1)] assms(2)
  by (simp add: toNestErrors_def nest_loop_def)















section \<open>Properties of the resolver\<close>

lemma sample_fails_sync:
  "validation_fails sample_schema sync_mode (JObj []) (schema_options JUndefined JNull) name_required"
  by (simp add: validation_fails_def sample_schema_def sync_mode_def)

lemma sample_fails_async:
  "validation_fails sample_schema default_mode (JObj []) (schema_options JUndefined JNull) name_required"
  by (simp add: validation_fails_def sample_schema_def default_mode_def)

lemma resolve_failure_value:
  "resolve_result options \<lparr>result_error = Some e, result_value = v\<rparr> =
   resolve_result options \<lparr>result_error = Some e, result_value = JUndefined\<rparr>"
  by (simp add: resolve_result_def)

text \<open>When the resolver returns on a failure, the values are the empty object.\<close>

lemma resolve_failure_values:
  "result_error result = Some e \<Longrightarrow> resolve_result options result = Inr r \<Longrightarrow>
   res_values r = JObj []"
  by (auto simp: resolve_result_def split: sum.splits)

lemma name_parsed:
  "parseErrorSchema name_required False =
     Inr [(''name'', JObj [(''message'', JStr ''required''), (''type'', JStr ''any.required'')])]"
  by (simp add: name_required_def parseErrorSchema_step_def truthy_prop_def inherited_def
      object_prototype_names_def joined_path_def Let_def)

lemma name_keys: "path_keys ''name'' = [''name'']"
  by (simp add: path_keys_def isKey_def isWordChar_def)

lemma name_tree:
  "snd (toNestErrors
          [(''name'', JObj [(''message'', JStr ''required''), (''type'', JStr ''any.required'')])]
          sample_options) =
     Inr (JObj [(''name'', JObj [(''message'', JStr ''required''),
                                 (''type'', JStr ''any.required''),
                                 (''ref'', JStr ''input#name'')])])"
  by (simp add: toNestErrors_def own_keys_plain not_index isDigit_def)
     (simp add: run_defs name_keys sample_options_def)

lemma name_failure:
  "resolve_result sample_options \<lparr>result_error = Some name_required, result_value = v\<rparr> =
     Inr \<lparr>res_values = JObj [],
          res_errors = JObj [(''name'', JObj [(''message'', JStr ''required''),
                                              (''type'', JStr ''any.required''),
                                              (''ref'', JStr ''input#name'')])]\<rparr>"
proof -
  have all: "(\<not> shouldUseNativeValidation sample_options \<and>
              criteriaMode sample_options = Some ''all'') = False"
    by (simp add: sample_options_def)
  show ?thesis by (simp add: resolve_result_def all name_parsed name_tree)
qed

text \<open>
  A failure on a field with an ordinary name is converted: the resolver returns the
  empty values and the tree, in sync mode as in async mode.
\<close>

lemma joiResolver_sample_failure:
  "snd (joiResolver sample_schema JUndefined sync_mode (JObj []) JNull sample_options) =
     Inr \<lparr>res_values = JObj [],
          res_errors = JObj [(''name'', JObj [(''message'', JStr ''required''),
                                              (''type'', JStr ''any.required''),
                                              (''ref'', JStr ''input#name'')])]\<rparr> \<and>
   snd (joiResolver sample_schema JUndefined default_mode (JObj []) JNull sample_options) =
     Inr \<lparr>res_values = JObj [],
          res_errors = JObj [(''name'', JObj [(''message'', JStr ''required''),
                                              (''type'', JStr ''any.required''),
                                              (''ref'', JStr ''input#name'')])]\<rparr>"
  by (simp add: joiResolver_def sample_schema_def sync_mode_def default_mode_def name_failure
      Let_def)

lemma group_parsed:
  "parseErrorSchema group_required False =
     Inr [(''a('', JObj [(''message'', JStr ''required''), (''type'', JStr ''any.required'')])]"
  by (simp add: group_required_def parseErrorSchema_step_def truthy_prop_def inherited_def
      object_prototype_names_def joined_path_def Let_def)

lemma group_keys: "path_keys ''a('' = [''a('']"
  by (simp add: path_keys_def isKey_def isWordChar_def stringToPath_def compact_def)

lemma group_raises:
  "snd (toNestErrors
          [(''a('', JObj [(''message'', JStr ''required''), (''type'', JStr ''any.required'')])]
          group_options) = Inl SyntaxError"
  by (simp add: toNestErrors_def own_keys_plain not_index isDigit_def)
     (simp add: toNestErrors_step_def field_names_def group_options_def isNameInFieldArray_def
       escapeBrackets_def regexp_match_def get_rhf_def read_prop_def assign_def group_keys
       lookup_error_def js_or_def Let_def)

text \<open>
  C3. The claim is that on every failure of the validation the resolver returns the
  error tree and raises nothing. The schema that requires the key \<open>a(\<close> refutes it:
  validating the empty object fails with one item of path \<open>a(\<close>, in sync mode as in
  async mode; \<open>isNameInFieldArray\<close> then builds the regular expression
  \<^verbatim>\<open>^a(\.\d+\<close>, whose group is not closed, and the \<open>SyntaxError\<close> of that
  construction leaves the resolver. (The comment of \<open>escapeBrackets\<close> says that it
  escapes the special characters of a string that goes into a pattern; the function
  removes the square brackets and nothing else.)
\<close>

theorem joiResolver_unterminated_group:
  "validation_fails group_schema sync_mode (JObj []) (schema_options JUndefined JNull)
     group_required \<and>
   validation_fails group_schema default_mode (JObj []) (schema_options JUndefined JNull)
     group_required \<and>
   snd (joiResolver group_schema JUndefined sync_mode (JObj []) JNull group_options) =
     Inl SyntaxError \<and>
   snd (joiResolver group_schema JUndefined default_mode (JObj []) JNull group_options) =
     Inl SyntaxError"
proof -
  have all: "(\<not> shouldUseNativeValidation group_options \<and>
              criteriaMode group_options = Some ''all'') = False"
    by (simp add: group_options_def)
  have r: "\<And>v. resolve_result group_options \<lparr>result_error = Some group_required, result_value = v\<rparr> =
             Inl SyntaxError"
    by (simp add: resolve_result_def all group_parsed group_raises)
  show ?thesis
    by (simp add: validation_fails_def joiResolver_def group_schema_def sync_mode_def
        default_mode_def r Let_def)
qed

text \<open>
  C5. When the validation succeeds with a value, the resolver returns that value as
  \<open>values\<close> together with the empty object as \<open>errors\<close>.
\<close>

theorem joiResolver_success:
  assumes "validation_succeeds schema resolverOptions vals (schema_options schemaOptions context) v"
  shows "snd (joiResolver schema schemaOptions resolverOptions vals context options) =
           Inr \<lparr>res_values = v, res_errors = JObj []\<rparr>"
  using assms
  by (auto simp: joiResolver_def validation_succeeds_def resolve_result_def Let_def
           split: if_splits)

theorem joiResolver_success_witness:
  "validation_succeeds sample_schema sync_mode (JObj [(''name'', JStr ''Ada'')])
     (schema_options JUndefined JNull) (JObj [(''name'', JStr ''Ada'')]) \<and>
   validation_succeeds sample_schema default_mode (JObj [(''name'', JStr ''Ada'')])
     (schema_options JUndefined JNull) (JObj [(''name'', JStr ''Ada'')]) \<and>
   snd (joiResolver sample_schema JUndefined sync_mode (JObj [(''name'', JStr ''Ada'')]) JNull
          sample_options) =
     Inr \<lparr>res_values = JObj [(''name'', JStr ''Ada'')], res_errors = JObj []\<rparr> \<and>
   snd (joiResolver sample_schema JUndefined default_mode (JObj [(''name'', JStr ''Ada'')]) JNull
          sample_options) =
     Inr \<lparr>res_values = JObj [(''name'', JStr ''Ada'')], res_errors = JObj []\<rparr>"
proof -
  have s: "validation_succeeds sample_schema sync_mode (JObj [(''name'', JStr ''Ada'')])
             (schema_options JUndefined JNull) (JObj [(''name'', JStr ''Ada'')])"
    by (simp add: validation_succeeds_def sample_schema_def sync_mode_def)
  have a: "validation_succeeds sample_schema default_mode (JObj [(''name'', JStr ''Ada'')])
             (schema_options JUndefined JNull) (JObj [(''name'', JStr ''Ada'')])"
    by (simp add: validation_succeeds_def sample_schema_def default_mode_def)
  show ?thesis
    using s a joiResolver_success [OF s, of sample_options]
      joiResolver_success [OF a, of sample_options]
    by simp
qed

text \<open>
  C7. In \<open>sync\<close> mode the resolver makes one call, to \<open>validate\<close>, with the values
  and the merged options, and its outcome is obtained from what that call gives: what
  \<open>validate\<close> throws leaves the resolver, the value of a result without error is
  returned as \<open>values\<close>, and the error of a result is converted. In every other
  mode, the default included, the one call is to \<open>validateAsync\<close>, with the same
  arguments: the value it resolves with is returned as \<open>values\<close>, and the error it
  rejects with is converted in the same way. The entry point that is not called has no
  influence: replacing it by any other function leaves the run unchanged.
\<close>

theorem joiResolver_mode:
  "(mode resolverOptions = Some ''sync'' \<longrightarrow>
      fst (joiResolver schema schemaOptions resolverOptions vals context options) =
        [CallValidate vals (schema_options schemaOptions context)] \<and>
      snd (joiResolver schema schemaOptions resolverOptions vals context options) =
        (case validate schema vals (schema_options schemaOptions context) of
           Inl e \<Rightarrow> Inl e
         | Inr result \<Rightarrow>
             (case result_error result of
                None \<Rightarrow> Inr \<lparr>res_values = result_value result, res_errors = JObj []\<rparr>
              | Some e \<Rightarrow>
                  resolve_result options \<lparr>result_error = Some e, result_value = JUndefined\<rparr>)) \<and>
      joiResolver (schema\<lparr>validateAsync := other_async\<rparr>) schemaOptions resolverOptions
        vals context options =
      joiResolver schema schemaOptions resolverOptions vals context options) \<and>
   (mode resolverOptions \<noteq> Some ''sync'' \<longrightarrow>
      fst (joiResolver schema schemaOptions resolverOptions vals context options) =
        [CallValidateAsync vals (schema_options schemaOptions context)] \<and>
      snd (joiResolver schema schemaOptions resolverOptions vals context options) =
        (case validateAsync schema vals (schema_options schemaOptions context) of
           Inr v \<Rightarrow> Inr \<lparr>res_values = v, res_errors = JObj []\<rparr>
         | Inl e \<Rightarrow>
             resolve_result options \<lparr>result_error = Some e, result_value = JUndefined\<rparr>) \<and>
      joiResolver (schema\<lparr>validate := other_sync\<rparr>) schemaOptions resolverOptions
        vals context options =
      joiResolver schema schemaOptions resolverOptions vals context options)"
proof -
  have s: "\<And>result. resolve_result options result =
             (case result_error result of
                None \<Rightarrow> Inr \<lparr>res_values = result_value result, res_errors = JObj []\<rparr>
              | Some e \<Rightarrow>
                  resolve_result options \<lparr>result_error = Some e, result_value = JUndefined\<rparr>)"
  proof -
    fix result
    show "resolve_result options result =
             (case result_error result of
                None \<Rightarrow> Inr \<lparr>res_values = result_value result, res_errors = JObj []\<rparr>
              | Some e \<Rightarrow>
                  resolve_result options \<lparr>result_error = Some e, result_value = JUndefined\<rparr>)"
      by (cases "result_error result") (simp_all add: resolve_result_def)
  qed
  have a: "\<And>v. resolve_result options \<lparr>result_error = None, result_value = v\<rparr> =
             Inr \<lparr>res_values = v, res_errors = JObj []\<rparr>"
    by (simp add: resolve_result_def)
  show ?thesis
    by (auto simp: joiResolver_def Let_def a s [symmetric] split: sum.splits)
qed

theorem joiResolver_mode_witness:
  "mode sync_mode = Some ''sync'' \<and>
   mode default_mode \<noteq> Some ''sync'' \<and>
   validate split_schema (JObj [(''name'', JStr ''Ada'')]) (schema_options JUndefined JNull) =
     Inr \<lparr>result_error = Some name_required, result_value = JObj [(''name'', JStr ''Ada'')]\<rparr> \<and>
   validateAsync split_schema (JObj [(''name'', JStr ''Ada'')]) (schema_options JUndefined JNull) =
     Inr (JObj [(''name'', JStr ''Ada'')]) \<and>
   joiResolver split_schema JUndefined sync_mode (JObj [(''name'', JStr ''Ada'')]) JNull
     sample_options =
     ([CallValidate (JObj [(''name'', JStr ''Ada'')]) (schema_options JUndefined JNull)],
      Inr \<lparr>res_values = JObj [],
           res_errors = JObj [(''name'', JObj [(''message'', JStr ''required''),
                                               (''type'', JStr ''any.required''),
                                               (''ref'', JStr ''input#name'')])]\<rparr>) \<and>
   joiResolver split_schema JUndefined default_mode (JObj [(''name'', JStr ''Ada'')]) JNull
     sample_options =
     ([CallValidateAsync (JObj [(''name'', JStr ''Ada'')]) (schema_options JUndefined JNull)],
      Inr \<lparr>res_values = JObj [(''name'', JStr ''Ada'')], res_errors = JObj []\<rparr>)"
proof -
  have m: "mode sync_mode = Some ''sync''" "mode default_mode \<noteq> Some ''sync''"
    by (simp_all add: sync_mode_def default_mode_def)
  have v: "validate split_schema (JObj [(''name'', JStr ''Ada'')])
             (schema_options JUndefined JNull) =
           Inr \<lparr>result_error = Some name_required,
                result_value = JObj [(''name'', JStr ''Ada'')]\<rparr>"
    by (simp add: split_schema_def)
  have w: "validateAsync split_schema (JObj [(''name'', JStr ''Ada'')])
             (schema_options JUndefined JNull) = Inr (JObj [(''name'', JStr ''Ada'')])"
    by (simp add: split_schema_def)
  note s = joiResolver_mode [of sync_mode split_schema JUndefined "JObj [(''name'', JStr ''Ada'')]"
      JNull sample_options, THEN conjunct1, rule_format, OF m(1)]
  note d = joiResolver_mode [of default_mode split_schema JUndefined
      "JObj [(''name'', JStr ''Ada'')]" JNull sample_options, THEN conjunct2, rule_format, OF m(2)]
  have "joiResolver split_schema JUndefined sync_mode (JObj [(''name'', JStr ''Ada'')]) JNull
          sample_options =
        ([CallValidate (JObj [(''name'', JStr ''Ada'')]) (schema_options JUndefined JNull)],
         Inr \<lparr>res_values = JObj [],
              res_errors = JObj [(''name'', JObj [(''message'', JStr ''required''),
                                                  (''type'', JStr ''any.required''),
                                                  (''ref'', JStr ''input#name'')])]\<rparr>)"
    using s by (simp add: prod_eq_iff v name_failure)
  moreover have "joiResolver split_schema JUndefined default_mode
          (JObj [(''name'', JStr ''Ada'')]) JNull sample_options =
        ([CallValidateAsync (JObj [(''name'', JStr ''Ada'')]) (schema_options JUndefined JNull)],
         Inr \<lparr>res_values = JObj [(''name'', JStr ''Ada'')], res_errors = JObj []\<rparr>)"
    using d by (simp add: prod_eq_iff w)
  ultimately show ?thesis using m v w by simp
qed

lemma closing_parsed:
  "parseErrorSchema closing_required False =
     Inr [(''b)'', JObj [(''message'', JStr ''required''), (''type'', JStr ''any.required'')])]"
  by (simp add: closing_required_def parseErrorSchema_step_def truthy_prop_def inherited_def
      object_prototype_names_def joined_path_def Let_def)

lemma closing_keys: "path_keys ''b)'' = [''b)'']"
  by (simp add: path_keys_def isKey_def isWordChar_def stringToPath_def compact_def)

lemma closing_raises:
  "snd (toNestErrors
          [(''b)'', JObj [(''message'', JStr ''required''), (''type'', JStr ''any.required'')])]
          closing_options) = Inl SyntaxError"
  by (simp add: toNestErrors_def own_keys_plain not_index isDigit_def)
     (simp add: toNestErrors_step_def field_names_def closing_options_def isNameInFieldArray_def
       escapeBrackets_def regexp_match_def get_rhf_def read_prop_def assign_def closing_keys
       lookup_error_def js_or_def own_keys_plain not_index isDigit_def Let_def)

text \<open>
  C10. The claim is that on every failure of the validation the resolver returns the
  empty object as \<open>values\<close>. Whenever it returns on a failure the values are the
  empty object (lemma \<open>resolve_failure_values\<close>); but it does not always return. The
  schema that requires the key \<open>b)\<close>, in a form that gives no names, refutes the
  claim: the validation fails with one item of path \<open>b)\<close>, the name tested is the key
  of the parsed mapping, the regular expression \<^verbatim>\<open>^b)\.\d+\<close> closes a group
  that it has not opened, and the resolver raises the \<open>SyntaxError\<close> of its
  construction, in sync mode as in async mode: no values are returned.
\<close>

theorem joiResolver_unopened_group:
  "validation_fails closing_schema sync_mode (JObj []) (schema_options JUndefined JNull)
     closing_required \<and>
   validation_fails closing_schema default_mode (JObj []) (schema_options JUndefined JNull)
     closing_required \<and>
   snd (joiResolver closing_schema JUndefined sync_mode (JObj []) JNull closing_options) =
     Inl SyntaxError \<and>
   snd (joiResolver closing_schema JUndefined default_mode (JObj []) JNull closing_options) =
     Inl SyntaxError \<and>
   (\<forall>r. snd (joiResolver closing_schema JUndefined sync_mode (JObj []) JNull closing_options) \<noteq>
          Inr r) \<and>
   (\<forall>r. snd (joiResolver closing_schema JUndefined default_mode (JObj []) JNull
                closing_options) \<noteq> Inr r)"
proof -
  have all: "(\<not> shouldUseNativeValidation closing_options \<and>
              criteriaMode closing_options = Some ''all'') = False"
    by (simp add: closing_options_def)
  have r: "\<And>v. resolve_result closing_options
                  \<lparr>result_error = Some closing_required, result_value = v\<rparr> = Inl SyntaxError"
    by (simp add: resolve_result_def all closing_parsed closing_raises)
  show ?thesis
    by (simp add: validation_fails_def joiResolver_def closing_schema_def sync_mode_def
        default_mode_def r Let_def)
qed

end
